theory Spec2Isabelle
  imports Main "HOL-Library.AList"
begin

section \<open>Values, dictionaries and errors\<close>

text \<open>
  The schema documents handled by \<^verbatim>\<open>pydantic2ts.py\<close> are the JSON values that pydantic's
  \<^verbatim>\<open>model_json_schema()\<close> returns and that \<^verbatim>\<open>json.dumps\<close> serialises. A Python dict
  keeps its keys in insertion order, so a dict is an association list: \<open>map_of\<close> reads a key,
  \<open>AList.update\<close> is \<^verbatim>\<open>d[k] = v\<close> (an existing key keeps its position, a new key goes to
  the end) and \<open>AList.delete\<close> is \<^verbatim>\<open>del d[k]\<close> / \<^verbatim>\<open>d.pop(k, None)\<close>. Python's \<^verbatim>\<open>None\<close> is
  \<open>JNull\<close>. The cleaning code never looks inside a number; a float is carried as its literal.
\<close>

datatype json =
    JNull
  | JBool bool
  | JInt int
  | JFloat string
  | JStr string
  | JArr "json list"
  | JObj "(string \<times> json) list"

type_synonym dict = "(string \<times> json) list"

text \<open>The exceptions the modelled code can raise; \<open>External\<close> is any exception raised by
  a library or program outside the repository (pydantic, the module loader).\<close>

datatype error =
    KeyError string
  | TypeError
  | AttributeError
  | UnboundLocalError string
  | FileNotFoundError string
  | RuntimeError string
  | Exception string
  | External string

text \<open>\<^verbatim>\<open>d.get(k, default)\<close>\<close>

definition dict_get :: "dict \<Rightarrow> string \<Rightarrow> json \<Rightarrow> json" where
  "dict_get d k dflt = (case map_of d k of None \<Rightarrow> dflt | Some v \<Rightarrow> v)"

text \<open>\<^verbatim>\<open>k in d\<close>\<close>

definition dict_has :: "dict \<Rightarrow> string \<Rightarrow> bool" where
  "dict_has d k = (map_of d k \<noteq> None)"

section \<open>SchemaCleaner: \<^verbatim>\<open>clean_schema\<close>\<close>

text \<open>
  The body of the loop over \<^verbatim>\<open>schema.get("properties", {}).values()\<close>:
  \<^verbatim>\<open>prop.pop("title", None)\<close>, then \<^verbatim>\<open>if "prefixItems" in prop: prop["items"] = prop["prefixItems"]\<close>.
  A property that is not a dict has no two-argument \<^verbatim>\<open>pop\<close>: a list raises TypeError,
  every other value AttributeError.
\<close>

fun clean_prop :: "json \<Rightarrow> error + json" where
  "clean_prop (JObj prop) =
     (let prop1 = AList.delete ''title'' prop
      in Inr (JObj (if dict_has prop1 ''prefixItems''
                    then AList.update ''items'' (dict_get prop1 ''prefixItems'' JNull) prop1
                    else prop1)))"
| "clean_prop (JArr xs) = Inl TypeError"
| "clean_prop v = Inl AttributeError"

text \<open>The loop itself, in dict order; the first exception ends it.\<close>

fun clean_props :: "dict \<Rightarrow> error + dict" where
  "clean_props [] = Inr []"
| "clean_props ((k, prop) # ps) =
     (case clean_prop prop of
        Inl e \<Rightarrow> Inl e
      | Inr prop' \<Rightarrow>
          (case clean_props ps of
             Inl e \<Rightarrow> Inl e
           | Inr ps' \<Rightarrow> Inr ((k, prop') # ps')))"

text \<open>Lines 202-203:
  \<^verbatim>\<open>if "enum" in schema and schema.get("description") == "An enumeration.": del schema["description"]\<close>\<close>

definition drop_enum_boilerplate :: "dict \<Rightarrow> dict" where
  "drop_enum_boilerplate schema =
     (if dict_has schema ''enum''
         \<and> dict_get schema ''description'' JNull = JStr ''An enumeration.''
      then AList.delete ''description'' schema
      else schema)"

text \<open>
  \<^verbatim>\<open>clean_schema(schema, is_typeddict)\<close> mutates \<^verbatim>\<open>schema\<close> in place and returns nothing; the
  model returns the mutated dict, or the exception. The property dicts are mutated through
  \<^verbatim>\<open>schema["properties"]\<close>, so the cleaned properties are stored back under that key.
\<close>

definition clean_schema :: "dict \<Rightarrow> bool \<Rightarrow> error + dict" where
  "clean_schema schema is_typeddict =
     (let schema1 = (if is_typeddict
                     then AList.update ''additionalProperties'' (JBool False) schema
                     else schema)
      in case (case map_of schema1 ''properties'' of
                 None \<Rightarrow> Inr schema1
               | Some (JObj props) \<Rightarrow>
                   (case clean_props props of
                      Inl e \<Rightarrow> Inl e
                    | Inr props' \<Rightarrow> Inr (AList.update ''properties'' (JObj props') schema1))
               | Some v \<Rightarrow> Inl AttributeError) of
           Inl e \<Rightarrow> Inl e
         | Inr schema2 \<Rightarrow> Inr (drop_enum_boilerplate schema2))"

section \<open>Declarations and their configuration\<close>

text \<open>
  A declaration is a Python class object: a pydantic model or a TypedDict. Class objects are
  shared and mutated in place (\<^verbatim>\<open>m.model_config["extra"] = ...\<close>), and the same class can
  occur several times in a list, so the classes live in a store and the lists hold
  references. \<open>cname\<close> is \<^verbatim>\<open>__name__\<close>; \<open>model_config\<close> is the class's \<^verbatim>\<open>model_config\<close> dict
  (the code never reads it for a TypedDict).
\<close>

type_synonym ref = nat

record class_obj =
  cname :: string
  model_config :: dict

type_synonym store = "ref \<Rightarrow> class_obj"

text \<open>\<^verbatim>\<open>m.model_config["extra"] = v\<close>\<close>

definition set_extra :: "store \<Rightarrow> ref \<Rightarrow> json \<Rightarrow> store" where
  "set_extra st m v =
     st(m := (st m)\<lparr>model_config := AList.update ''extra'' v (model_config (st m))\<rparr>)"

text \<open>\<^verbatim>\<open>m.model_config.get("extra", None)\<close>\<close>

definition get_extra :: "store \<Rightarrow> ref \<Rightarrow> json" where
  "get_extra st m = dict_get (model_config (st m)) ''extra'' JNull"

section \<open>SchemaUnifier: \<^verbatim>\<open>generate_schema\<close>\<close>

text \<open>Lines 217-219, the body of the first loop:
  \<^verbatim>\<open>if m.model_config.get("extra", None) != "allow": m.model_config["extra"] = "forbid"\<close>\<close>

definition force_forbid :: "store \<Rightarrow> ref \<Rightarrow> store" where
  "force_forbid st m =
     (if get_extra st m \<noteq> JStr ''allow'' then set_extra st m (JStr ''forbid'') else st)"

text \<open>Lines 244-246, the body of the loop in the \<^verbatim>\<open>finally\<close> block:
  \<^verbatim>\<open>if x is not None: m.model_config["extra"] = x\<close>\<close>

definition restore_extra :: "store \<Rightarrow> ref \<times> json \<Rightarrow> store" where
  "restore_extra st mx =
     (case mx of (m, x) \<Rightarrow> if x \<noteq> JNull then set_extra st m x else st)"

text \<open>The two loops as a whole: lines 217-219 over \<^verbatim>\<open>pyd_models\<close>, and lines 244-246 over
  \<^verbatim>\<open>zip(all_models, all_model_extras)\<close>.\<close>

definition override_extras :: "store \<Rightarrow> ref list \<Rightarrow> store" where
  "override_extras st pyd_models = foldl force_forbid st pyd_models"

definition restore_extras :: "store \<Rightarrow> (ref \<times> json) list \<Rightarrow> store" where
  "restore_extras st saved = foldl restore_extra st saved"

text \<open>The keyword arguments of \<^verbatim>\<open>create_model\<close>, the dict comprehension
  \<^verbatim>\<open>{m.__name__: (m, ...) for m in all_models}\<close>: a later class of the same name replaces
  an earlier one.\<close>

definition master_fields :: "store \<Rightarrow> ref list \<Rightarrow> (string \<times> ref) list" where
  "master_fields st all_models = foldl (\<lambda>d m. AList.update (cname (st m)) m d) [] all_models"

text \<open>
  Lines 236-239, one round of the loop over \<^verbatim>\<open>schema.get("$defs", {}).values()\<close>:
  \<^verbatim>\<open>clean_schema(d, is_typeddict=d["title"] in [td.__name__ for td in typed_dicts])\<close>.
  \<^verbatim>\<open>d["title"]\<close> raises KeyError when the definition has no title and TypeError when the
  definition is not a dict.
\<close>

fun clean_def :: "string list \<Rightarrow> json \<Rightarrow> error + json" where
  "clean_def td_names (JObj d) =
     (case map_of d ''title'' of
        None \<Rightarrow> Inl (KeyError ''title'')
      | Some t \<Rightarrow>
          (case clean_schema d (case t of JStr s \<Rightarrow> s \<in> set td_names | _ \<Rightarrow> False) of
             Inl e \<Rightarrow> Inl e
           | Inr d' \<Rightarrow> Inr (JObj d')))"
| "clean_def td_names v = Inl TypeError"

fun clean_defs :: "string list \<Rightarrow> dict \<Rightarrow> error + dict" where
  "clean_defs td_names [] = Inr []"
| "clean_defs td_names ((k, d) # ds) =
     (case clean_def td_names d of
        Inl e \<Rightarrow> Inl e
      | Inr d' \<Rightarrow>
          (case clean_defs td_names ds of
             Inl e \<Rightarrow> Inl e
           | Inr ds' \<Rightarrow> Inr ((k, d') # ds')))"

text \<open>
  The \<^verbatim>\<open>try\<close> block up to the dict handed to \<^verbatim>\<open>json.dumps\<close> (lines 226-239): the cleaned
  SchemaDocument. pydantic is not part of the repository, so \<open>reflect\<close> stands for
  \<^verbatim>\<open>create_model("_Master_", **fields)\<close>, the two assignments to the master model's own
  configuration and \<^verbatim>\<open>master_model.model_json_schema()\<close>: from the classes as they are at
  that moment and the master model's fields it gives the schema dict, or raises. It reads the
  declarations and does not change them.
\<close>

type_synonym reflection = "store \<Rightarrow> (string \<times> ref) list \<Rightarrow> error + dict"

definition cleaned_schema :: "reflection \<Rightarrow> store \<Rightarrow> ref list \<Rightarrow> ref list \<Rightarrow> error + dict" where
  "cleaned_schema reflect st all_models typed_dicts =
     (case reflect st (master_fields st all_models) of
        Inl e \<Rightarrow> Inl e
      | Inr schema \<Rightarrow>
          (case dict_get schema ''$defs'' (JObj []) of
             JObj defs \<Rightarrow>
               (case clean_defs (map (\<lambda>td. cname (st td)) typed_dicts) defs of
                  Inl e \<Rightarrow> Inl e
                | Inr defs' \<Rightarrow>
                    Inr (if dict_has schema ''$defs''
                         then AList.update ''$defs'' (JObj defs') schema
                         else schema))
           | v \<Rightarrow> Inl AttributeError))"

text \<open>
  \<^verbatim>\<open>generate_schema(pyd_models, typed_dicts)\<close>: the result is the serialised document or the
  exception that leaves the \<^verbatim>\<open>try\<close> block, together with the classes as the \<^verbatim>\<open>finally\<close> block
  leaves them. \<open>dumps\<close> stands for \<^verbatim>\<open>json.dumps(_, indent=2)\<close>. As in the source,
  \<^verbatim>\<open>all_model_extras\<close> is read after the first loop has run.
\<close>

definition generate_schema ::
  "reflection \<Rightarrow> (dict \<Rightarrow> string) \<Rightarrow> ref list \<Rightarrow> ref list \<Rightarrow> store \<Rightarrow> (error + string) \<times> store" where
  "generate_schema reflect dumps pyd_models typed_dicts st =
     (let st1 = override_extras st pyd_models;
          all_models = pyd_models @ typed_dicts;
          all_model_extras =
            map (get_extra st1) pyd_models @ replicate (length typed_dicts) JNull;
          result = (case cleaned_schema reflect st1 all_models typed_dicts of
                      Inl e \<Rightarrow> Inl e
                    | Inr schema \<Rightarrow> Inr (dumps schema));
          st2 = restore_extras st1 (zip all_models all_model_extras)
      in (result, st2))"

section \<open>OutputPostProcessor: \<^verbatim>\<open>clean_output_file\<close>\<close>

text \<open>
  A file system maps a path to the text of the file (the text as Python's text mode gives
  and takes it). \<^verbatim>\<open>f.readlines()\<close> cuts the text after every line feed and keeps the line
  feed on the line; \<^verbatim>\<open>f.writelines\<close> writes the lines one after the other.
\<close>

type_synonym fs = "string \<rightharpoonup> string"

fun readlines :: "string \<Rightarrow> string list" where
  "readlines [] = []"
| "readlines (c # cs) =
     (if c = CHR ''\<newline>'' then [c] # readlines cs
      else (case readlines cs of
              [] \<Rightarrow> [[c]]
            | l # ls \<Rightarrow> (c # l) # ls))"

text \<open>\<^verbatim>\<open>line.rstrip("\r\n")\<close>: every trailing carriage return and line feed is removed.\<close>

definition rstrip_crlf :: "string \<Rightarrow> string" where
  "rstrip_crlf line = rev (dropWhile (\<lambda>c. c = CHR 0x0D \<or> c = CHR ''\<newline>'') (rev line))"

definition is_master_header :: "string \<Rightarrow> bool" where
  "is_master_header line = (rstrip_crlf line = ''export interface _Master_ {'')"

definition is_closing_brace :: "string \<Rightarrow> bool" where
  "is_closing_brace line = (rstrip_crlf line = ''}'')"

text \<open>
  Lines 159-165, the loop over \<^verbatim>\<open>enumerate(lines)\<close>; \<open>i\<close> is the index of the first line of
  the remaining list and \<open>start\<close> the value of the variable so far. The result is the pair
  \<^verbatim>\<open>(start, end)\<close> after the loop.
\<close>

fun find_markers :: "nat \<Rightarrow> string list \<Rightarrow> nat option \<Rightarrow> nat option \<times> nat option" where
  "find_markers i [] start = (start, None)"
| "find_markers i (line # rest) start =
     (if is_master_header line
      then find_markers (Suc i) rest (Some i)
      else if start \<noteq> None \<and> is_closing_brace line
      then (start, Some i)
      else find_markers (Suc i) rest start)"

definition banner_comment_lines :: "string list" where
  "banner_comment_lines =
     [''/* tslint:disable */\<newline>'',
      ''/* eslint-disable */\<newline>'',
      ''/**\<newline>'',
      ''/* This file was automatically generated from pydantic models by running pydantic2ts.\<newline>'',
      ''/* Do not modify it by hand - just update the pydantic models and then re-run the script\<newline>'',
      ''*/\<newline>\<newline>'']"

text \<open>
  \<^verbatim>\<open>clean_output_file(output_filename)\<close>. Opening a missing file for reading raises.
  \<^verbatim>\<open>new_lines\<close> is assigned only under \<^verbatim>\<open>if start is not None and end is not None\<close>
  (\<open>None\<close> below is the unbound variable). \<^verbatim>\<open>open(output_filename, "w")\<close> empties the file
  before \<^verbatim>\<open>f.writelines(new_lines)\<close> reads the variable.
\<close>

definition clean_output_file :: "string \<Rightarrow> fs \<Rightarrow> (error + unit) \<times> fs" where
  "clean_output_file output_filename files0 =
     (case files0 output_filename of
        None \<Rightarrow> (Inl (FileNotFoundError output_filename), files0)
      | Some text \<Rightarrow>
          (let lines = readlines text;
               new_lines =
                 (case find_markers 0 lines None of
                    (Some start, Some end) \<Rightarrow>
                      Some (banner_comment_lines @ take start lines @ drop (end + 1) lines)
                  | other \<Rightarrow> None);
               files1 = files0(output_filename \<mapsto> [])
           in case new_lines of
                None \<Rightarrow> (Inl (UnboundLocalError ''new_lines''), files1)
              | Some ls \<Rightarrow> (Inr (), files1(output_filename \<mapsto> concat ls))))"

section \<open>Orchestrator: \<^verbatim>\<open>generate_typescript_defs\<close>\<close>

text \<open>\<^verbatim>\<open>str(n)\<close> for an integer, as the f-string of the error message renders the exit status.\<close>

fun str_nat :: "nat \<Rightarrow> string" where
  "str_nat n =
     (if n < 10 then [''0123456789'' ! n]
      else str_nat (n div 10) @ [''0123456789'' ! (n mod 10)])"

declare str_nat.simps [simp del]

definition str_int :: "int \<Rightarrow> string" where
  "str_int i = (if i < 0 then ''-'' @ str_nat (nat (- i)) else str_nat (nat i))"

text \<open>\<^verbatim>\<open>os.path.join(a, b)\<close> for a relative \<open>b\<close>.\<close>

definition path_join :: "string \<Rightarrow> string \<Rightarrow> string" where
  "path_join a b = (if a = [] \<or> last a = CHR ''/'' then a @ b else a @ ''/'' @ b)"

text \<open>
  What a run can change: the class objects, the files and the directories.
\<close>

record world =
  classes :: store
  files :: fs
  dirs :: "string set"

text \<open>\<^verbatim>\<open>shutil.rmtree(d)\<close>: the directory and every file below it are gone.\<close>

definition is_below :: "string \<Rightarrow> string \<Rightarrow> bool" where
  "is_below d p = (take (length (path_join d [])) p = path_join d [])"

definition rmtree :: "string \<Rightarrow> world \<Rightarrow> world" where
  "rmtree d w =
     w\<lparr>files := (\<lambda>p. if is_below d p then None else files w p),
       dirs := dirs w - {d}\<rparr>"

text \<open>
  The collaborators outside the pipeline that the orchestrator calls:
  \<^item> \<open>ext_which\<close>: whether \<^verbatim>\<open>shutil.which(cmd)\<close> finds the executable;
  \<^item> \<open>ext_load_models\<close>, \<open>ext_load_typed_dicts\<close>: \<^verbatim>\<open>extract_pydantic_models(import_module(module))\<close>
    and \<^verbatim>\<open>extract_typed_dicts(import_module(module))\<close>, which execute the module (creating
    class objects) and walk it by reflection; either can raise;
  \<^item> \<open>ext_reflect\<close>, \<open>ext_dumps\<close>: as for \<open>generate_schema\<close>;
  \<^item> \<open>ext_mkdtemp\<close>: the path of the fresh directory that \<^verbatim>\<open>mkdtemp()\<close> creates;
  \<^item> \<open>ext_system\<close>: \<^verbatim>\<open>os.system(command)\<close>, the external converter: its exit status and the
    files as it leaves them.
\<close>

record externals =
  ext_which :: "string \<Rightarrow> bool"
  ext_load_models :: "string \<Rightarrow> store \<Rightarrow> (error + ref list) \<times> store"
  ext_load_typed_dicts :: "string \<Rightarrow> store \<Rightarrow> (error + ref list) \<times> store"
  ext_reflect :: reflection
  ext_dumps :: "dict \<Rightarrow> string"
  ext_mkdtemp :: string
  ext_system :: "string \<Rightarrow> fs \<Rightarrow> int \<times> fs"

text \<open>Lines 295-297: \<^verbatim>\<open>if exclude: xs = [m for m in xs if m.__name__ not in exclude]\<close>,
  the same statement for the models and for the TypedDicts.\<close>

definition exclude_by_name :: "store \<Rightarrow> string list \<Rightarrow> ref list \<Rightarrow> ref list" where
  "exclude_by_name st exclude ms =
     (if exclude \<noteq> [] then filter (\<lambda>m. cname (st m) \<notin> set exclude) ms else ms)"

text \<open>Lines 309-329, the path taken when \<^verbatim>\<open>schema_only\<close> is false, from the serialised
  schema on.\<close>

definition convert_schema :: "externals \<Rightarrow> string \<Rightarrow> string \<Rightarrow> string \<Rightarrow> world \<Rightarrow> (error + unit) \<times> world" where
  "convert_schema ext output json2ts_cmd schema w =
     (let schema_dir = ext_mkdtemp ext;
          schema_file_path = path_join schema_dir ''schema.json'';
          w1 = w\<lparr>files := (files w)(schema_file_path \<mapsto> schema),
                 dirs := insert schema_dir (dirs w)\<rparr>;
          (json2ts_exit_code, files2) =
             ext_system ext (json2ts_cmd @ '' -i '' @ schema_file_path @ '' -o '' @ output
                         @ '' --bannerComment '' @ [CHR 0x22, CHR 0x22]) (files w1);
          w3 = rmtree schema_dir (w1\<lparr>files := files2\<rparr>)
      in if json2ts_exit_code = 0
         then (case clean_output_file output (files w3) of
                 (r, files4) \<Rightarrow> (r, w3\<lparr>files := files4\<rparr>))
         else (Inl (RuntimeError ([CHR 0x22] @ json2ts_cmd @ [CHR 0x22]
                                  @ '' failed with exit code '' @ str_int json2ts_exit_code
                                  @ ''.'')), w3))"

text \<open>\<^verbatim>\<open>generate_typescript_defs(module, output, exclude, json2ts_cmd, schema_only)\<close>.\<close>

definition generate_typescript_defs ::
  "externals \<Rightarrow> string \<Rightarrow> string \<Rightarrow> string list \<Rightarrow> string \<Rightarrow> bool \<Rightarrow> world
     \<Rightarrow> (error + unit) \<times> world" where
  "generate_typescript_defs ext module output exclude json2ts_cmd schema_only w =
     (if \<not> schema_only \<and> CHR '' '' \<notin> set json2ts_cmd \<and> \<not> ext_which ext json2ts_cmd
      then (Inl (Exception (''json2ts must be installed. Instructions can be found here: ''
                            @ ''https://www.npmjs.com/package/json-schema-to-typescript'')), w)
      else
        (case ext_load_models ext module (classes w) of
           (Inl e, st1) \<Rightarrow> (Inl e, w\<lparr>classes := st1\<rparr>)
         | (Inr found_models, st1) \<Rightarrow>
        (case ext_load_typed_dicts ext module st1 of
           (Inl e, st2) \<Rightarrow> (Inl e, w\<lparr>classes := st2\<rparr>)
         | (Inr found_typed_dicts, st2) \<Rightarrow>
        (let models = exclude_by_name st2 exclude found_models;
             typed_dicts = exclude_by_name st2 exclude found_typed_dicts
         in case generate_schema (ext_reflect ext) (ext_dumps ext) models typed_dicts st2 of
              (Inl e, st3) \<Rightarrow> (Inl e, w\<lparr>classes := st3\<rparr>)
            | (Inr schema, st3) \<Rightarrow>
                if schema_only
                then (Inr (), w\<lparr>classes := st3, files := (files w)(output \<mapsto> schema)\<rparr>)
                else convert_schema ext output json2ts_cmd schema (w\<lparr>classes := st3\<rparr>)))))"

section \<open>Example declarations and documents\<close>

text \<open>
  Four classes: the models \<^verbatim>\<open>Order\<close> (a field \<^verbatim>\<open>user: User\<close>), \<^verbatim>\<open>User\<close>
  (\<^verbatim>\<open>id: int\<close>, \<^verbatim>\<open>name: str\<close>) and \<^verbatim>\<open>Settings\<close> (\<^verbatim>\<open>theme: str\<close>, configured with
  \<^verbatim>\<open>extra="allow"\<close>), and the TypedDict \<^verbatim>\<open>Point\<close> (\<^verbatim>\<open>xy: Tuple[int, int]\<close>).
\<close>

definition ex_classes :: store where
  "ex_classes =
     (\<lambda>r. \<lparr>cname = ''object'', model_config = []\<rparr>)
       (0 := \<lparr>cname = ''Order'', model_config = []\<rparr>,
        1 := \<lparr>cname = ''User'', model_config = []\<rparr>,
        2 := \<lparr>cname = ''Settings'', model_config = [(''extra'', JStr ''allow'')]\<rparr>,
        3 := \<lparr>cname = ''Point'', model_config = []\<rparr>)"

text \<open>The schema bodies pydantic gives for the four classes, before the key that renders
  the extra-fields policy is added.\<close>

definition ex_order_body :: dict where
  "ex_order_body =
     [(''properties'', JObj [(''user'', JObj [(''$ref'', JStr ''#/$defs/User'')])]),
      (''required'', JArr [JStr ''user'']),
      (''title'', JStr ''Order''),
      (''type'', JStr ''object'')]"

definition ex_user_body :: dict where
  "ex_user_body =
     [(''properties'', JObj [(''id'', JObj [(''title'', JStr ''Id''), (''type'', JStr ''integer'')]),
                             (''name'', JObj [(''title'', JStr ''Name''), (''type'', JStr ''string'')])]),
      (''required'', JArr [JStr ''id'', JStr ''name'']),
      (''title'', JStr ''User''),
      (''type'', JStr ''object'')]"

definition ex_settings_body :: dict where
  "ex_settings_body =
     [(''properties'', JObj [(''theme'', JObj [(''title'', JStr ''Theme''), (''type'', JStr ''string'')])]),
      (''required'', JArr [JStr ''theme'']),
      (''title'', JStr ''Settings''),
      (''type'', JStr ''object'')]"

definition ex_xy_body :: dict where
  "ex_xy_body =
     [(''maxItems'', JInt 2),
      (''minItems'', JInt 2),
      (''prefixItems'', JArr [JObj [(''type'', JStr ''integer'')],
                              JObj [(''type'', JStr ''integer'')]]),
      (''title'', JStr ''Xy''),
      (''type'', JStr ''array'')]"

definition ex_point_body :: dict where
  "ex_point_body =
     [(''properties'', JObj [(''xy'', JObj ex_xy_body)]),
      (''required'', JArr [JStr ''xy'']),
      (''title'', JStr ''Point''),
      (''type'', JStr ''object'')]"

text \<open>A model's definition: pydantic renders \<^verbatim>\<open>extra="allow"\<close> as
  \<^verbatim>\<open>"additionalProperties": true\<close>, \<^verbatim>\<open>extra="forbid"\<close> as \<^verbatim>\<open>false\<close>, and adds no key
  otherwise. The policy is the one the class has when the schema is asked for.\<close>

definition ex_model_def :: "store \<Rightarrow> ref \<Rightarrow> dict \<Rightarrow> json" where
  "ex_model_def st m body =
     JObj ((if get_extra st m = JStr ''allow'' then [(''additionalProperties'', JBool True)]
            else if get_extra st m = JStr ''forbid'' then [(''additionalProperties'', JBool False)]
            else []) @ body)"

text \<open>The document of the master model: the definitions, and one required field per
  declaration that refers to its definition.\<close>

definition ex_master :: "dict \<Rightarrow> string list \<Rightarrow> dict" where
  "ex_master defs names =
     [(''$defs'', JObj defs),
      (''additionalProperties'', JBool False),
      (''properties'', JObj (map (\<lambda>n. (n, JObj [(''$ref'', JStr (''#/$defs/'' @ n))])) names)),
      (''required'', JArr (map JStr names)),
      (''title'', JStr ''_Master_''),
      (''type'', JStr ''object'')]"

text \<open>
  A reflection for these classes. Asked for the master model over \<^verbatim>\<open>Order\<close> alone it also
  gives the definition of \<^verbatim>\<open>User\<close>, which \<^verbatim>\<open>Order\<close> refers to: the definitions cover every
  declaration reachable from the master model.
\<close>

definition ex_reflect :: reflection where
  "ex_reflect st kwargs =
     (if map fst kwargs = [''Order'']
      then Inr (ex_master [(''Order'', ex_model_def st 0 ex_order_body),
                           (''User'', ex_model_def st 1 ex_user_body)] [''Order''])
      else if map fst kwargs = [''User'', ''Settings'', ''Point'']
      then Inr (ex_master [(''Point'', JObj ex_point_body),
                           (''Settings'', ex_model_def st 2 ex_settings_body),
                           (''User'', ex_model_def st 1 ex_user_body)]
                          [''User'', ''Settings'', ''Point''])
      else if kwargs = []
      then Inr (ex_master [] [])
      else Inl (External ''PydanticUserError''))"

text \<open>The same definitions after cleaning: the titles of the properties are gone, the tuple
  field has its \<^verbatim>\<open>items\<close>, the TypedDict is closed.\<close>

definition ex_user_cleaned :: dict where
  "ex_user_cleaned =
     [(''properties'', JObj [(''id'', JObj [(''type'', JStr ''integer'')]),
                             (''name'', JObj [(''type'', JStr ''string'')])]),
      (''required'', JArr [JStr ''id'', JStr ''name'']),
      (''title'', JStr ''User''),
      (''type'', JStr ''object'')]"

definition ex_settings_cleaned :: dict where
  "ex_settings_cleaned =
     [(''additionalProperties'', JBool True),
      (''properties'', JObj [(''theme'', JObj [(''type'', JStr ''string'')])]),
      (''required'', JArr [JStr ''theme'']),
      (''title'', JStr ''Settings''),
      (''type'', JStr ''object'')]"

definition ex_xy_cleaned :: dict where
  "ex_xy_cleaned =
     [(''maxItems'', JInt 2),
      (''minItems'', JInt 2),
      (''prefixItems'', JArr [JObj [(''type'', JStr ''integer'')],
                              JObj [(''type'', JStr ''integer'')]]),
      (''type'', JStr ''array''),
      (''items'', JArr [JObj [(''type'', JStr ''integer'')],
                        JObj [(''type'', JStr ''integer'')]])]"

definition ex_point_cleaned :: dict where
  "ex_point_cleaned =
     [(''properties'', JObj [(''xy'', JObj ex_xy_cleaned)]),
      (''required'', JArr [JStr ''xy'']),
      (''title'', JStr ''Point''),
      (''type'', JStr ''object''),
      (''additionalProperties'', JBool False)]"

definition ex_defs_cleaned :: dict where
  "ex_defs_cleaned =
     [(''Point'', JObj ex_point_cleaned),
      (''Settings'', JObj ex_settings_cleaned),
      (''User'', JObj ((''additionalProperties'', JBool False) # ex_user_cleaned))]"

definition ex_order_defs_cleaned :: dict where
  "ex_order_defs_cleaned =
     [(''Order'', JObj ((''additionalProperties'', JBool False) # ex_order_body)),
      (''User'', JObj ex_user_cleaned)]"

text \<open>
  Output files of the converter: one with the block of the master model after a wanted
  interface, one where the header of the master model comes twice, one without the master
  model, and one where the master model has no fields and is printed on a single line.
\<close>

definition ex_output_text :: string where
  "ex_output_text =
     ''export interface User {\<newline>  id: number;\<newline>}\<newline>export interface _Master_ {\<newline>  User: User;\<newline>}\<newline>''"

definition ex_double_header_text :: string where
  "ex_double_header_text =
     ''export interface _Master_ {\<newline>export interface _Master_ {\<newline>}\<newline>''"

definition ex_no_master_text :: string where
  "ex_no_master_text = ''export interface User {\<newline>  id: number;\<newline>}\<newline>''"

definition ex_empty_master_text :: string where
  "ex_empty_master_text = ''export interface _Master_ {}\<newline>''"

text \<open>A file system whose only file is \<^verbatim>\<open>api.ts\<close>.\<close>

definition ex_files :: "string \<Rightarrow> fs" where
  "ex_files content = [''api.ts'' \<mapsto> content]"

text \<open>
  A run on a module without declarations: the executable is found, both discoveries give
  the empty list, and the converter succeeds (exit status 0) and writes the master model
  without fields to \<^verbatim>\<open>api.ts\<close>. The serialiser is left open.
\<close>

definition ex_world :: world where
  "ex_world = \<lparr>classes = ex_classes, files = Map.empty, dirs = {}\<rparr>"

definition ex_externals :: "(dict \<Rightarrow> string) \<Rightarrow> externals" where
  "ex_externals dumps =
     \<lparr>ext_which = (\<lambda>cmd. True),
      ext_load_models = (\<lambda>module st. (Inr [], st)),
      ext_load_typed_dicts = (\<lambda>module st. (Inr [], st)),
      ext_reflect = ex_reflect,
      ext_dumps = dumps,
      ext_mkdtemp = ''/tmp/tmpk3v9x2aa'',
      ext_system = (\<lambda>command fs. (0, fs(''api.ts'' \<mapsto> ex_empty_master_text)))\<rparr>"

definition ex_defs_raw :: dict where
  "ex_defs_raw =
     [(''Point'', JObj ex_point_body),
      (''Settings'', JObj ((''additionalProperties'', JBool True) # ex_settings_body)),
      (''User'', JObj ((''additionalProperties'', JBool False) # ex_user_body))]"

definition ex_order_defs_raw :: dict where
  "ex_order_defs_raw =
     [(''Order'', JObj ((''additionalProperties'', JBool False) # ex_order_body)),
      (''User'', JObj ex_user_body)]"

section \<open>Dictionaries\<close>

lemma dict_has_update: "dict_has (AList.update k v d) k' = (k' = k \<or> dict_has d k')"
  by (simp add: dict_has_def update_conv')

lemma dict_get_update: "dict_get (AList.update k v d) k' z = (if k' = k then v else dict_get d k' z)"
  by (simp add: dict_get_def update_conv')

lemma dict_has_delete: "dict_has (AList.delete k d) k' = (k' \<noteq> k \<and> dict_has d k')"
  by (simp add: dict_has_def delete_conv')

lemma dict_get_delete: "dict_get (AList.delete k d) k' z = (if k' = k then z else dict_get d k' z)"
  by (simp add: dict_get_def delete_conv')

lemma clean_prop_idem: "clean_prop p = Inr p' \<Longrightarrow> clean_prop p' = Inr p'"
proof (cases p)
  case (JObj pd)
  assume r: "clean_prop p = Inr p'"
  let ?p1 = "AList.delete ''title'' pd"
  show ?thesis
  proof (cases "dict_has ?p1 ''prefixItems''")
    case True
    with r JObj have p': "p' = JObj (AList.update ''items'' (dict_get ?p1 ''prefixItems'' JNull) ?p1)"
      by (simp add: Let_def)
    show ?thesis
      unfolding p' using True
      by (simp add: Let_def delete_update delete_idem dict_has_update dict_get_update)
  next
    case False
    with r JObj have p': "p' = JObj ?p1" by (simp add: Let_def)
    show ?thesis unfolding p' using False by (simp add: Let_def delete_idem)
  qed
qed simp_all

lemma clean_props_idem: "clean_props ps = Inr ps' \<Longrightarrow> clean_props ps' = Inr ps'"
proof (induction ps arbitrary: ps')
  case Nil
  then show ?case by simp
next
  case (Cons a ps)
  obtain k p where a: "a = (k, p)" by (cases a)
  from Cons.prems a obtain p' qs where
    p: "clean_prop p = Inr p'" and qs: "clean_props ps = Inr qs" and ps': "ps' = (k, p') # qs"
    by (auto split: sum.splits)
  from clean_prop_idem [OF p] Cons.IH [OF qs] show ?case by (simp add: ps')
qed


lemma drop_enum_boilerplate_idem: "drop_enum_boilerplate (drop_enum_boilerplate s) = drop_enum_boilerplate s"
  by (simp add: drop_enum_boilerplate_def dict_get_delete)

lemma map_of_drop_enum_boilerplate: "k \<noteq> ''description'' \<Longrightarrow> map_of (drop_enum_boilerplate s) k = map_of s k"
  by (simp add: drop_enum_boilerplate_def)

lemma clean_schema_cases:
  assumes "clean_schema s b = Inr s'"
  obtains (no_props) "map_of s ''properties'' = None"
      "s' = drop_enum_boilerplate (if b then AList.update ''additionalProperties'' (JBool False) s else s)"
  | (props) props props' where "map_of s ''properties'' = Some (JObj props)"
      "clean_props props = Inr props'"
      "s' = drop_enum_boilerplate (AList.update ''properties'' (JObj props')
              (if b then AList.update ''additionalProperties'' (JBool False) s else s))"
  using assms
  by (cases b) (auto simp: clean_schema_def drop_enum_boilerplate_def Let_def update_conv'
        split: option.splits json.splits sum.splits if_splits)

lemma clean_prop_no_title:
  "clean_prop pv = Inr pv' \<Longrightarrow> \<exists>pd'. pv' = JObj pd' \<and> \<not> dict_has pd' ''title''"
  by (cases pv) (auto simp: Let_def dict_has_update dict_has_delete)

lemma clean_props_keys: "clean_props ps = Inr ps' \<Longrightarrow> map fst ps' = map fst ps"
  by (induction ps arbitrary: ps') (auto split: sum.splits)

lemma clean_props_member:
  "clean_props ps = Inr ps' \<Longrightarrow> (k, pv') \<in> set ps' \<Longrightarrow> \<exists>pv. (k, pv) \<in> set ps \<and> clean_prop pv = Inr pv'"
  by (induction ps arbitrary: ps') (auto split: sum.splits, blast+)

lemma clean_props_map_of:
  "clean_props ps = Inr ps' \<Longrightarrow> map_of ps k = Some pv
     \<Longrightarrow> \<exists>pv'. map_of ps' k = Some pv' \<and> clean_prop pv = Inr pv'"
  by (induction ps arbitrary: ps') (auto split: sum.splits if_splits)

lemma clean_schema_properties:
  assumes "clean_schema d b = Inr d'" and "map_of d' ''properties'' = Some pv'"
  shows "\<exists>props props'. map_of d ''properties'' = Some (JObj props) \<and> pv' = JObj props' \<and> clean_props props = Inr props'"
  using assms(1)
proof (cases rule: clean_schema_cases)
  case no_props
  with assms(2) show ?thesis
    by (auto simp: map_of_drop_enum_boilerplate update_conv' split: if_splits)
next
  case (props props props')
  with assms(2) show ?thesis
    by (auto simp: map_of_drop_enum_boilerplate update_conv' split: if_splits)
qed




lemma clean_defs_member:
  "clean_defs ns ds = Inr ds' \<Longrightarrow> (k, dv') \<in> set ds'
     \<Longrightarrow> \<exists>dv. (k, dv) \<in> set ds \<and> clean_def ns dv = Inr dv'"
  by (induction ds arbitrary: ds') (auto split: sum.splits, blast+)


lemma clean_def_cases:
  assumes "clean_def ns dv = Inr dv'"
  obtains d t d' where "dv = JObj d" "dv' = JObj d'" "map_of d ''title'' = Some t"
    "clean_schema d (case t of JStr s \<Rightarrow> s \<in> set ns | _ \<Rightarrow> False) = Inr d'"
  using assms by (cases dv) (auto split: option.splits sum.splits)

lemma cleaned_schema_cases:
  assumes "cleaned_schema reflect st all_models typed_dicts = Inr schema"
  obtains raw rdefs defs' where
    "reflect st (master_fields st all_models) = Inr raw"
    "dict_get raw ''$defs'' (JObj []) = JObj rdefs"
    "clean_defs (map (\<lambda>td. cname (st td)) typed_dicts) rdefs = Inr defs'"
    "schema = (if dict_has raw ''$defs'' then AList.update ''$defs'' (JObj defs') raw else raw)"
  using assms
  by (auto simp: cleaned_schema_def split: sum.splits json.splits)

lemma cleaned_schema_defs:
  assumes "cleaned_schema reflect st all_models typed_dicts = Inr schema"
    and "map_of schema ''$defs'' = Some (JObj defs)"
  obtains raw rdefs where
    "reflect st (master_fields st all_models) = Inr raw"
    "map_of raw ''$defs'' = Some (JObj rdefs)"
    "clean_defs (map (\<lambda>td. cname (st td)) typed_dicts) rdefs = Inr defs"
  using assms(1)
proof (cases rule: cleaned_schema_cases)
  case (1 raw rdefs defs')
  show ?thesis
  proof (cases "dict_has raw ''$defs''")
    case True
    with 1 assms(2) have "defs' = defs" by (simp add: update_conv')
    moreover from True 1(2) have "map_of raw ''$defs'' = Some (JObj rdefs)"
      by (auto simp: dict_has_def dict_get_def)
    ultimately show ?thesis using 1 that by blast
  next
    case False
    with 1 assms(2) show ?thesis by (simp add: dict_has_def)
  qed
qed


section \<open>The scan for the two markers\<close>

lemma header_not_closing: "is_master_header l \<Longrightarrow> \<not> is_closing_brace l"
  by (auto simp: is_master_header_def is_closing_brace_def)

lemma find_markers_no_header:
  "e < length ls \<Longrightarrow> is_closing_brace (ls ! e)
     \<Longrightarrow> \<forall>k<e. \<not> is_closing_brace (ls ! k) \<and> \<not> is_master_header (ls ! k)
     \<Longrightarrow> find_markers i ls (Some s0) = (Some s0, Some (i + e))"
proof (induction ls arbitrary: i e)
  case Nil
  then show ?case by simp
next
  case (Cons l ls)
  show ?case
  proof (cases e)
    case 0
    with Cons.prems show ?thesis by (auto simp: header_not_closing)
  next
    case (Suc e')
    with Cons.prems have l: "\<not> is_closing_brace l" "\<not> is_master_header l" by auto
    from Suc Cons.prems have "find_markers (Suc i) ls (Some s0) = (Some s0, Some (Suc i + e'))"
      by (intro Cons.IH) auto
    with l Suc show ?thesis by simp
  qed
qed

lemma find_markers_last_header:
  "e < length ls \<Longrightarrow> is_closing_brace (ls ! e) \<Longrightarrow> \<forall>k<e. \<not> is_closing_brace (ls ! k)
     \<Longrightarrow> s < e \<Longrightarrow> is_master_header (ls ! s)
     \<Longrightarrow> \<forall>k. s < k \<and> k < e \<longrightarrow> \<not> is_master_header (ls ! k)
     \<Longrightarrow> find_markers i ls start = (Some (i + s), Some (i + e))"
proof (induction ls arbitrary: i e s start)
  case Nil
  then show ?case by simp
next
  case (Cons l ls)
  from Cons.prems obtain e' where e: "e = Suc e'" by (cases e) auto
  show ?case
  proof (cases s)
    case 0
    with Cons.prems e have l: "is_master_header l" by simp
    have "find_markers (Suc i) ls (Some i) = (Some i, Some (Suc i + e'))"
    proof (rule find_markers_no_header)
      show "e' < length ls" using Cons.prems e by simp
      show "is_closing_brace (ls ! e')" using Cons.prems e by simp
      show "\<forall>k<e'. \<not> is_closing_brace (ls ! k) \<and> \<not> is_master_header (ls ! k)"
      proof (intro allI impI)
        fix k assume k: "k < e'"
        then have "Suc k < e" using e by simp
        moreover have "0 < Suc k" by simp
        ultimately show "\<not> is_closing_brace (ls ! k) \<and> \<not> is_master_header (ls ! k)"
          using Cons.prems(3) Cons.prems(6) 0
          by (metis nth_Cons_Suc)
      qed
    qed
    with l 0 e show ?thesis by simp
  next
    case (Suc s')
    from Cons.prems Suc have nc: "\<not> is_closing_brace l" by auto
    have "find_markers (Suc i) ls (if is_master_header l then Some i else start) = (Some (Suc i + s'), Some (Suc i + e'))"
    proof (rule Cons.IH)
      show "e' < length ls" using Cons.prems e by simp
      show "is_closing_brace (ls ! e')" using Cons.prems e by simp
      show "\<forall>k<e'. \<not> is_closing_brace (ls ! k)"
        using Cons.prems(3) e by (metis Suc_less_eq nth_Cons_Suc)
      show "s' < e'" using Cons.prems Suc e by simp
      show "is_master_header (ls ! s')" using Cons.prems Suc by simp
      show "\<forall>k. s' < k \<and> k < e' \<longrightarrow> \<not> is_master_header (ls ! k)"
        using Cons.prems(6) Suc e by (metis Suc_less_eq nth_Cons_Suc)
    qed
    with nc Suc e show ?thesis by (cases "is_master_header l") simp_all
  qed
qed

lemma find_markers_skip:
  "h < length ls \<Longrightarrow> is_master_header (ls ! h) \<Longrightarrow> \<forall>k<h. \<not> is_master_header (ls ! k)
     \<Longrightarrow> find_markers i ls None = find_markers (i + h) (drop h ls) None"
proof (induction ls arbitrary: i h)
  case Nil
  then show ?case by simp
next
  case (Cons l ls)
  show ?case
  proof (cases h)
    case 0
    then show ?thesis by simp
  next
    case (Suc h')
    with Cons.prems have l: "\<not> is_master_header l" by auto
    have "find_markers (Suc i) ls None = find_markers (Suc i + h') (drop h' ls) None"
    proof (rule Cons.IH)
      show "h' < length ls" using Cons.prems Suc by simp
      show "is_master_header (ls ! h')" using Cons.prems Suc by simp
      show "\<forall>k<h'. \<not> is_master_header (ls ! k)"
        using Cons.prems(3) Suc by (metis Suc_less_eq nth_Cons_Suc)
    qed
    with l Suc show ?thesis by simp
  qed
qed

lemma find_markers_found:
  assumes h: "h < length ls" "is_master_header (ls ! h)" "\<forall>k<h. \<not> is_master_header (ls ! k)"
    and e: "e < length ls" "h < e" "is_closing_brace (ls ! e)"
           "\<forall>k. h < k \<and> k < e \<longrightarrow> \<not> is_closing_brace (ls ! k)"
    and s: "s < e" "is_master_header (ls ! s)"
           "\<forall>k. s < k \<and> k < e \<longrightarrow> \<not> is_master_header (ls ! k)"
  shows "find_markers 0 ls None = (Some s, Some e)"
proof -
  have hs: "h \<le> s" using h(2) s(3) e(2) by (meson not_le_imp_less)
  have 1: "find_markers 0 ls None = find_markers h (drop h ls) None"
    using find_markers_skip [OF h, of 0] by simp
  have "find_markers h (drop h ls) start = (Some (h + (s - h)), Some (h + (e - h)))" for start
  proof (rule find_markers_last_header)
    show "e - h < length (drop h ls)" using e by simp
    show "is_closing_brace (drop h ls ! (e - h))" using e h by simp
    show "\<forall>k<e - h. \<not> is_closing_brace (drop h ls ! k)"
    proof (intro allI impI)
      fix k assume k: "k < e - h"
      show "\<not> is_closing_brace (drop h ls ! k)"
      proof (cases k)
        case 0
        then show ?thesis using h by (simp add: header_not_closing)
      next
        case (Suc k')
        then have "h < h + k \<and> h + k < e" using k by simp
        then have "\<not> is_closing_brace (ls ! (h + k))" using e(4) by blast
        then show ?thesis using h(1) by simp
      qed
    qed
    show "s - h < e - h" using hs s e by simp
    show "is_master_header (drop h ls ! (s - h))" using hs s e h by simp
    show "\<forall>k. s - h < k \<and> k < e - h \<longrightarrow> \<not> is_master_header (drop h ls ! k)"
    proof (intro allI impI)
      fix k assume k: "s - h < k \<and> k < e - h"
      then have "s < h + k \<and> h + k < e" using hs by auto
      then have "\<not> is_master_header (ls ! (h + k))" using s(3) by blast
      then show "\<not> is_master_header (drop h ls ! k)" using h(1) by simp
    qed
  qed
  then show ?thesis using 1 hs e by simp
qed


lemma find_markers_start_none:
  "\<forall>l \<in> set ls. \<not> is_master_header l \<Longrightarrow> find_markers i ls None = (None, None)"
  by (induction ls arbitrary: i) auto

lemma find_markers_end_none:
  "\<forall>l \<in> set ls. \<not> is_closing_brace l \<Longrightarrow> snd (find_markers i ls start) = None"
  by (induction ls arbitrary: i start) auto

lemma clean_output_file_found:
  assumes "files0 output_filename = Some content"
    and "find_markers 0 (readlines content) None = (Some s, Some e)"
  shows "clean_output_file output_filename files0
           = (Inr (), files0(output_filename \<mapsto>
                concat (banner_comment_lines @ take s (readlines content) @ drop (Suc e) (readlines content))))"
  using assms by (simp add: clean_output_file_def Let_def)

lemma clean_output_file_unbound:
  assumes "files0 output_filename = Some content"
    and "fst (find_markers 0 (readlines content) None) = None
           \<or> snd (find_markers 0 (readlines content) None) = None"
  shows "clean_output_file output_filename files0
           = (Inl (UnboundLocalError ''new_lines''), files0(output_filename \<mapsto> []))"
  using assms
  by (cases "find_markers 0 (readlines content) None")
     (auto simp: clean_output_file_def Let_def split: option.splits)

lemma clean_output_file_marker_absent:
  assumes "files0 output_filename = Some content"
    and "(\<forall>l \<in> set (readlines content). \<not> is_master_header l)
           \<or> (\<forall>l \<in> set (readlines content). \<not> is_closing_brace l)"
  shows "clean_output_file output_filename files0
           = (Inl (UnboundLocalError ''new_lines''), files0(output_filename \<mapsto> []))"
  using assms(1)
proof (rule clean_output_file_unbound)
  from assms(2) show "fst (find_markers 0 (readlines content) None) = None
           \<or> snd (find_markers 0 (readlines content) None) = None"
    by (auto simp: find_markers_start_none find_markers_end_none)
qed

lemma master_block_indices_exist:
  assumes "i < j" "j < length ls" "is_master_header (ls ! i)" "is_closing_brace (ls ! j)"
  obtains h e s where
    "h < length ls" "is_master_header (ls ! h)" "\<forall>k<h. \<not> is_master_header (ls ! k)"
    "e < length ls" "h < e" "is_closing_brace (ls ! e)"
    "\<forall>k. h < k \<and> k < e \<longrightarrow> \<not> is_closing_brace (ls ! k)"
    "s < e" "is_master_header (ls ! s)"
    "\<forall>k. s < k \<and> k < e \<longrightarrow> \<not> is_master_header (ls ! k)"
proof -
  define h where "h = (LEAST k. is_master_header (ls ! k))"
  have h1: "is_master_header (ls ! h)" unfolding h_def using assms(3) by (rule LeastI)
  have h2: "h \<le> i" unfolding h_def using assms(3) by (rule Least_le)
  have h3: "\<forall>k<h. \<not> is_master_header (ls ! k)"
    unfolding h_def using not_less_Least by blast
  define e where "e = (LEAST k. h < k \<and> is_closing_brace (ls ! k))"
  have ex: "h < j \<and> is_closing_brace (ls ! j)" using h2 assms by simp
  have e1: "h < e \<and> is_closing_brace (ls ! e)" unfolding e_def using ex by (rule LeastI)
  have e2: "e \<le> j" unfolding e_def using ex by (rule Least_le)
  have e3: "\<forall>k. h < k \<and> k < e \<longrightarrow> \<not> is_closing_brace (ls ! k)"
    unfolding e_def using not_less_Least by blast
  define s where "s = (GREATEST k. k < e \<and> is_master_header (ls ! k))"
  have hs: "h < e \<and> is_master_header (ls ! h)" using e1 h1 by simp
  have bound: "k \<le> e" if "k < e \<and> is_master_header (ls ! k)" for k using that by simp
  have s1: "s < e \<and> is_master_header (ls ! s)"
    unfolding s_def using hs bound by (rule GreatestI_nat)
  have s3: "\<forall>k. s < k \<and> k < e \<longrightarrow> \<not> is_master_header (ls ! k)"
  proof (intro allI impI notI)
    fix k assume k: "s < k \<and> k < e" and "is_master_header (ls ! k)"
    then have "k < e \<and> is_master_header (ls ! k)" by simp
    then have "k \<le> s" unfolding s_def using bound by (rule Greatest_le_nat)
    with k show False by simp
  qed
  show ?thesis
  proof (rule that [of h e s])
    show "h < length ls" using h2 assms by simp
    show "e < length ls" using e2 assms by simp
  qed (use h1 h3 e1 e3 s1 s3 in simp_all)
qed

lemma clean_output_file_ok:
  assumes "files0 output_filename = Some content"
    and "i < j" "j < length (readlines content)"
    and "is_master_header (readlines content ! i)" "is_closing_brace (readlines content ! j)"
  shows "fst (clean_output_file output_filename files0) = Inr ()"
proof (cases rule: master_block_indices_exist [OF assms(2-5)])
  case (1 h e s)
  then have "find_markers 0 (readlines content) None = (Some s, Some e)"
    by (rule find_markers_found)
  with assms(1) show ?thesis by (simp add: clean_output_file_found)
qed

section \<open>The policy overrides\<close>

lemma get_extra_set_extra:
  "get_extra (set_extra st m v) r = (if r = m then v else get_extra st r)"
  by (simp add: get_extra_def set_extra_def dict_get_update)


lemma get_extra_force_forbid:
  "get_extra (force_forbid st m) r =
     (if r = m \<and> get_extra st m \<noteq> JStr ''allow'' then JStr ''forbid'' else get_extra st r)"
  by (simp add: force_forbid_def get_extra_set_extra)



lemma get_extra_override_extras:
  "get_extra (override_extras st ms) r =
     (if r \<in> set ms \<and> get_extra st r \<noteq> JStr ''allow'' then JStr ''forbid'' else get_extra st r)"
  unfolding override_extras_def
  by (induction ms arbitrary: st) (auto simp: get_extra_force_forbid)

lemma set_extra_same: "get_extra st m = x \<Longrightarrow> x \<noteq> JNull \<Longrightarrow> set_extra st m x = st"
proof -
  assume a: "get_extra st m = x" "x \<noteq> JNull"
  then have "map_of (model_config (st m)) ''extra'' = Some x"
    by (auto simp: get_extra_def dict_get_def split: option.splits)
  then have "AList.update ''extra'' x (model_config (st m)) = model_config (st m)"
    by (rule update_triv)
  then show ?thesis by (simp add: set_extra_def)
qed

lemma restore_extras_same:
  "\<forall>(m, x) \<in> set saved. x = JNull \<or> x = get_extra st m \<Longrightarrow> restore_extras st saved = st"
  unfolding restore_extras_def
proof (induction saved)
  case Nil
  then show ?case by simp
next
  case (Cons a saved)
  obtain m x where a: "a = (m, x)" by (cases a)
  with Cons.prems have "restore_extra st a = st"
    by (auto simp: restore_extra_def set_extra_same)
  with Cons show ?case by simp
qed

lemma generate_schema_store:
  "snd (generate_schema reflect dumps pyd_models typed_dicts st) = override_extras st pyd_models"
proof -
  let ?st1 = "override_extras st pyd_models"
  have z: "zip (pyd_models @ typed_dicts)
               (map (get_extra ?st1) pyd_models @ replicate (length typed_dicts) JNull)
           = zip pyd_models (map (get_extra ?st1) pyd_models)
             @ zip typed_dicts (replicate (length typed_dicts) JNull)"
    by simp
  have "\<forall>(m, x) \<in> set (zip (pyd_models @ typed_dicts)
               (map (get_extra ?st1) pyd_models @ replicate (length typed_dicts) JNull)).
          x = JNull \<or> x = get_extra ?st1 m"
    unfolding z by (auto simp: zip_map2 zip_same dest: set_zip_rightD)
  then show ?thesis
    by (simp add: generate_schema_def Let_def restore_extras_same)
qed

lemma generate_schema_result:
  "fst (generate_schema reflect dumps pyd_models typed_dicts st) =
     (case cleaned_schema reflect (override_extras st pyd_models) (pyd_models @ typed_dicts) typed_dicts of
        Inl e \<Rightarrow> Inl e
      | Inr schema \<Rightarrow> Inr (dumps schema))"
  by (simp add: generate_schema_def Let_def)

lemma generate_schema_final_extra:
  "get_extra (snd (generate_schema reflect dumps pyd_models typed_dicts st)) m =
     (if m \<in> set pyd_models \<and> get_extra st m \<noteq> JStr ''allow'' then JStr ''forbid'' else get_extra st m)"
  by (simp add: generate_schema_store get_extra_override_extras)




section \<open>The converter step\<close>

lemma is_below_path_join: "is_below d (path_join d name)"
  by (simp add: is_below_def path_join_def)

lemma convert_schema_nonzero:
  assumes "ext_system ext
             (json2ts_cmd @ '' -i '' @ path_join (ext_mkdtemp ext) ''schema.json'' @ '' -o '' @ output
                @ '' --bannerComment '' @ [CHR 0x22, CHR 0x22])
             ((files w)(path_join (ext_mkdtemp ext) ''schema.json'' \<mapsto> schema)) = (code, files2)"
    and "code \<noteq> 0"
  shows "convert_schema ext output json2ts_cmd schema w
           = (Inl (RuntimeError ([CHR 0x22] @ json2ts_cmd @ [CHR 0x22] @ '' failed with exit code ''
                                 @ str_int code @ ''.'')),
              rmtree (ext_mkdtemp ext)
                (w\<lparr>dirs := insert (ext_mkdtemp ext) (dirs w), files := files2\<rparr>))"
  using assms by (simp add: convert_schema_def Let_def)

lemma convert_schema_zero:
  assumes "ext_system ext
             (json2ts_cmd @ '' -i '' @ path_join (ext_mkdtemp ext) ''schema.json'' @ '' -o '' @ output
                @ '' --bannerComment '' @ [CHR 0x22, CHR 0x22])
             ((files w)(path_join (ext_mkdtemp ext) ''schema.json'' \<mapsto> schema)) = (0, files2)"
    and "w3 = rmtree (ext_mkdtemp ext) (w\<lparr>dirs := insert (ext_mkdtemp ext) (dirs w), files := files2\<rparr>)"
  shows "convert_schema ext output json2ts_cmd schema w
           = (fst (clean_output_file output (files w3)),
              w3\<lparr>files := snd (clean_output_file output (files w3))\<rparr>)"
  using assms by (simp add: convert_schema_def Let_def split: prod.splits)

lemma rmtree_removes:
  "d \<notin> dirs (rmtree d w)" "files (rmtree d w) (path_join d name) = None"
  "\<not> is_below d p \<Longrightarrow> files (rmtree d w) p = files w p"
  by (simp_all add: rmtree_def is_below_path_join)


lemma generate_typescript_defs_nonzero:
  assumes "\<not> schema_only"
    and "CHR '' '' \<in> set json2ts_cmd \<or> ext_which ext json2ts_cmd"
    and "ext_load_models ext module (classes w) = (Inr found_models, st1)"
    and "ext_load_typed_dicts ext module st1 = (Inr found_typed_dicts, st2)"
    and "generate_schema (ext_reflect ext) (ext_dumps ext)
           (exclude_by_name st2 exclude found_models)
           (exclude_by_name st2 exclude found_typed_dicts) st2 = (Inr schema, st3)"
    and "ext_system ext
           (json2ts_cmd @ '' -i '' @ path_join (ext_mkdtemp ext) ''schema.json'' @ '' -o '' @ output
              @ '' --bannerComment '' @ [CHR 0x22, CHR 0x22])
           ((files w)(path_join (ext_mkdtemp ext) ''schema.json'' \<mapsto> schema)) = (code, files2)"
    and "code \<noteq> 0"
  shows "generate_typescript_defs ext module output exclude json2ts_cmd schema_only w
           = (Inl (RuntimeError ([CHR 0x22] @ json2ts_cmd @ [CHR 0x22] @ '' failed with exit code ''
                                 @ str_int code @ ''.'')),
              rmtree (ext_mkdtemp ext)
                (w\<lparr>classes := st3, dirs := insert (ext_mkdtemp ext) (dirs w), files := files2\<rparr>))"
proof -
  have "convert_schema ext output json2ts_cmd schema (w\<lparr>classes := st3\<rparr>)
          = (Inl (RuntimeError ([CHR 0x22] @ json2ts_cmd @ [CHR 0x22] @ '' failed with exit code ''
                                 @ str_int code @ ''.'')),
             rmtree (ext_mkdtemp ext)
               (w\<lparr>classes := st3, dirs := insert (ext_mkdtemp ext) (dirs w), files := files2\<rparr>))"
    using convert_schema_nonzero [where w = "w\<lparr>classes := st3\<rparr>"] assms(6,7) by simp
  with assms(1-5) show ?thesis
    by (auto simp: generate_typescript_defs_def Let_def)
qed

section \<open>The examples, evaluated\<close>

lemmas ex_defs = ex_classes_def ex_order_body_def ex_user_body_def ex_settings_body_def
  ex_xy_body_def ex_point_body_def ex_model_def_def ex_master_def ex_reflect_def ex_user_cleaned_def
  ex_settings_cleaned_def ex_xy_cleaned_def ex_point_cleaned_def ex_defs_cleaned_def
  ex_order_defs_cleaned_def ex_defs_raw_def ex_order_defs_raw_def

lemmas run_defs = cleaned_schema_def master_fields_def override_extras_def force_forbid_def
  get_extra_def set_extra_def dict_get_def dict_has_def clean_schema_def
  drop_enum_boilerplate_def Let_def

lemma ex_cleaned_schema:
  "cleaned_schema ex_reflect (override_extras ex_classes [1, 2]) ([1, 2] @ [3]) [3]
     = Inr (ex_master ex_defs_cleaned [''User'', ''Settings'', ''Point''])"
  by (simp add: ex_defs run_defs)


lemma ex_clean_point: "clean_schema ex_point_body True = Inr ex_point_cleaned"
  by (simp add: ex_defs run_defs)





lemma ex_readlines_output:
  "readlines ex_output_text =
     [''export interface User {\<newline>'', ''  id: number;\<newline>'', ''}\<newline>'',
      ''export interface _Master_ {\<newline>'', ''  User: User;\<newline>'', ''}\<newline>'']"
  by (simp add: ex_output_text_def)

lemma ex_str_int: "str_int 256 = ''256''" "str_int (- 1) = ''-1''"
  by (simp_all add: str_int_def str_nat.simps)

lemma ex_generate_schema_empty:
  "generate_schema ex_reflect dumps [] [] st = (Inr (dumps (ex_master [] [])), st)"
  by (simp add: generate_schema_def override_extras_def restore_extras_def cleaned_schema_def
        master_fields_def ex_reflect_def ex_master_def dict_get_def dict_has_def Let_def)

lemma ex_clean_empty_master:
  "files0 ''api.ts'' = Some ex_empty_master_text \<Longrightarrow>
     clean_output_file ''api.ts'' files0
       = (Inl (UnboundLocalError ''new_lines''), files0(''api.ts'' \<mapsto> []))"
  by (simp add: clean_output_file_def ex_empty_master_text_def is_master_header_def
        is_closing_brace_def rstrip_crlf_def Let_def)


lemma ex_convert_empty_master:
  "fst (convert_schema (ex_externals dumps) ''api.ts'' ''json2ts'' schema (ex_world\<lparr>classes := st\<rparr>))
     = Inl (UnboundLocalError ''new_lines'')
   \<and> files (snd (convert_schema (ex_externals dumps) ''api.ts'' ''json2ts'' schema
                   (ex_world\<lparr>classes := st\<rparr>))) ''api.ts'' = Some []"
proof -
  let ?ext = "ex_externals dumps"
  let ?w0 = "ex_world\<lparr>classes := st\<rparr>"
  let ?files2 = "((files ?w0)(path_join (ext_mkdtemp ?ext) ''schema.json'' \<mapsto> schema))
                   (''api.ts'' \<mapsto> ex_empty_master_text)"
  let ?w3 = "rmtree (ext_mkdtemp ?ext)
               (?w0\<lparr>dirs := insert (ext_mkdtemp ?ext) (dirs ?w0), files := ?files2\<rparr>)"
  have c: "convert_schema ?ext ''api.ts'' ''json2ts'' schema ?w0
      = (fst (clean_output_file ''api.ts'' (files ?w3)),
         ?w3\<lparr>files := snd (clean_output_file ''api.ts'' (files ?w3))\<rparr>)"
    by (rule convert_schema_zero) (simp_all add: ex_externals_def)
  have "\<not> is_below (ext_mkdtemp ?ext) ''api.ts''"
    by (simp add: is_below_def path_join_def ex_externals_def)
  then have "files ?w3 ''api.ts'' = Some ex_empty_master_text"
    by (simp add: rmtree_removes)
  then have "clean_output_file ''api.ts'' (files ?w3)
      = (Inl (UnboundLocalError ''new_lines''), (files ?w3)(''api.ts'' \<mapsto> []))"
    by (rule ex_clean_empty_master)
  then show ?thesis unfolding c by simp
qed

section \<open>The claims about the cleaned document\<close>

text \<open>
  C10. \<^verbatim>\<open>clean_schema\<close> is idempotent: for every schema dict and every flag, cleaning the
  cleaned dict again with the same flag changes nothing (when the first call raises there is
  no cleaned dict to clean again).
\<close>

theorem clean_schema_idempotent:
  "clean_schema s b = Inr s' \<Longrightarrow> clean_schema s' b = Inr s'"
proof (erule clean_schema_cases)
  let ?s1 = "if b then AList.update ''additionalProperties'' (JBool False) s else s"
  assume np: "map_of s ''properties'' = None" and s': "s' = drop_enum_boilerplate ?s1"
  have a: "(if b then AList.update ''additionalProperties'' (JBool False) s' else s') = s'"
    by (auto simp: s' map_of_drop_enum_boilerplate update_conv' intro!: update_triv)
  have p: "map_of s' ''properties'' = None"
    using np by (simp add: s' map_of_drop_enum_boilerplate update_conv')
  have e: "drop_enum_boilerplate s' = s'" by (simp add: s' drop_enum_boilerplate_idem)
  show "clean_schema s' b = Inr s'"
    using e unfolding clean_schema_def Let_def a p drop_enum_boilerplate_def by simp
next
  fix props props'
  let ?s1 = "if b then AList.update ''additionalProperties'' (JBool False) s else s"
  assume pr: "map_of s ''properties'' = Some (JObj props)"
    and cp: "clean_props props = Inr props'"
    and s': "s' = drop_enum_boilerplate (AList.update ''properties'' (JObj props') ?s1)"
  have a: "(if b then AList.update ''additionalProperties'' (JBool False) s' else s') = s'"
    by (auto simp: s' map_of_drop_enum_boilerplate update_conv' intro!: update_triv)
  have p: "map_of s' ''properties'' = Some (JObj props')"
    by (simp add: s' map_of_drop_enum_boilerplate update_conv')
  have u: "AList.update ''properties'' (JObj props') s' = s'"
    using p by (rule update_triv)
  have e: "drop_enum_boilerplate s' = s'" by (simp add: s' drop_enum_boilerplate_idem)
  show "clean_schema s' b = Inr s'"
    using e unfolding clean_schema_def Let_def a p drop_enum_boilerplate_def
    by (simp add: clean_props_idem [OF cp] u)
qed

theorem clean_schema_idempotent_witness:
  "clean_schema ex_point_body True = Inr ex_point_cleaned
     \<and> clean_schema ex_point_cleaned True = Inr ex_point_cleaned"
  using clean_schema_idempotent [OF ex_clean_point] ex_clean_point by simp

text \<open>
  C4, as the code has it. For every declared property with a \<^verbatim>\<open>prefixItems\<close> key, after
  \<^verbatim>\<open>clean_schema\<close> the property's \<^verbatim>\<open>items\<close> is the value of its \<^verbatim>\<open>prefixItems\<close>; the
  \<^verbatim>\<open>prefixItems\<close> key is copied, not removed, and is still there with the same value.
\<close>

theorem prefix_items_copied_to_items:
  assumes "clean_schema s b = Inr s'"
    and "map_of s ''properties'' = Some (JObj props)"
    and "map_of props p = Some (JObj pd)"
    and "map_of pd ''prefixItems'' = Some v"
  shows "\<exists>props' pd'. map_of s' ''properties'' = Some (JObj props')
           \<and> map_of props' p = Some (JObj pd')
           \<and> map_of pd' ''items'' = Some v
           \<and> map_of pd' ''prefixItems'' = Some v"
  using assms(1)
proof (cases rule: clean_schema_cases)
  case no_props
  with assms(2) show ?thesis by simp
next
  case (props ps ps')
  with assms(2) have ps: "ps = props" by simp
  from clean_props_map_of [OF props(2) [unfolded ps] assms(3)] obtain pv'
    where pv': "map_of ps' p = Some pv'" "clean_prop (JObj pd) = Inr pv'" by blast
  let ?pd' = "AList.update ''items'' v (AList.delete ''title'' pd)"
  from pv'(2) assms(4) have "pv' = JObj ?pd'"
    by (simp add: Let_def dict_has_def dict_get_def)
  moreover have "map_of ?pd' ''items'' = Some v" "map_of ?pd' ''prefixItems'' = Some v"
    using assms(4) by (simp_all add: update_conv')
  moreover have "map_of s' ''properties'' = Some (JObj ps')"
    by (simp add: props(3) map_of_drop_enum_boilerplate update_conv')
  ultimately show ?thesis using pv'(1) by blast
qed

theorem prefix_items_copied_to_items_witness:
  "\<exists>props' pd'. map_of ex_point_cleaned ''properties'' = Some (JObj props')
           \<and> map_of props' ''xy'' = Some (JObj pd')
           \<and> map_of pd' ''items'' = Some (JArr [JObj [(''type'', JStr ''integer'')], JObj [(''type'', JStr ''integer'')]])
           \<and> map_of pd' ''prefixItems'' = Some (JArr [JObj [(''type'', JStr ''integer'')], JObj [(''type'', JStr ''integer'')]])"
proof (rule prefix_items_copied_to_items [OF ex_clean_point])
  show "map_of ex_point_body ''properties'' = Some (JObj [(''xy'', JObj ex_xy_body)])"
    by (simp add: ex_point_body_def)
  show "map_of [(''xy'', JObj ex_xy_body)] ''xy'' = Some (JObj ex_xy_body)"
    by simp
  show "map_of ex_xy_body ''prefixItems''
          = Some (JArr [JObj [(''type'', JStr ''integer'')], JObj [(''type'', JStr ''integer'')]])"
    by (simp add: ex_xy_body_def)
qed

theorem prefix_items_kept_counterexample:
  "clean_schema ex_point_body True = Inr ex_point_cleaned
     \<and> map_of ex_point_cleaned ''properties'' = Some (JObj [(''xy'', JObj ex_xy_cleaned)])
     \<and> dict_has ex_xy_cleaned ''prefixItems''"
  using ex_clean_point by (simp add: ex_point_cleaned_def ex_xy_cleaned_def dict_has_def)

text \<open>
  C8. In the cleaned document, no declared property of any definition has a \<^verbatim>\<open>title\<close> key
  (and every declared property is a dict).
\<close>

theorem cleaned_properties_have_no_title:
  assumes "cleaned_schema reflect st all_models typed_dicts = Inr schema"
    and "map_of schema ''$defs'' = Some (JObj defs)"
    and "(name, JObj d) \<in> set defs"
    and "map_of d ''properties'' = Some (JObj props)"
    and "(p, pv) \<in> set props"
  shows "\<exists>pd. pv = JObj pd \<and> \<not> dict_has pd ''title''"
proof -
  from assms(1,2) obtain raw :: dict and rdefs where
    "clean_defs (map (\<lambda>td. cname (st td)) typed_dicts) rdefs = Inr defs"
    by (rule cleaned_schema_defs)
  from clean_defs_member [OF this assms(3)] obtain dv where
    "clean_def (map (\<lambda>td. cname (st td)) typed_dicts) dv = Inr (JObj d)" by blast
  then obtain d0 b where "clean_schema d0 b = Inr d"
    by (auto elim: clean_def_cases)
  from clean_schema_properties [OF this assms(4)] obtain props0 where
    "clean_props props0 = Inr props" by auto
  from clean_props_member [OF this assms(5)] obtain pv0 where
    "clean_prop pv0 = Inr pv" by blast
  then show ?thesis by (rule clean_prop_no_title)
qed

theorem cleaned_properties_have_no_title_witness:
  "\<exists>pd. JObj [(''type'', JStr ''integer'')] = JObj pd \<and> \<not> dict_has pd ''title''"
proof (rule cleaned_properties_have_no_title [OF ex_cleaned_schema])
  show "map_of (ex_master ex_defs_cleaned [''User'', ''Settings'', ''Point'']) ''$defs''
          = Some (JObj ex_defs_cleaned)"
    by (simp add: ex_master_def)
  show "(''User'', JObj ((''additionalProperties'', JBool False) # ex_user_cleaned)) \<in> set ex_defs_cleaned"
    by (simp add: ex_defs_cleaned_def)
  show "map_of ((''additionalProperties'', JBool False) # ex_user_cleaned) ''properties''
          = Some (JObj [(''id'', JObj [(''type'', JStr ''integer'')]),
                        (''name'', JObj [(''type'', JStr ''string'')])])"
    by (simp add: ex_user_cleaned_def)
  show "(''id'', JObj [(''type'', JStr ''integer'')])
          \<in> set [(''id'', JObj [(''type'', JStr ''integer'')]),
                 (''name'', JObj [(''type'', JStr ''string'')])]"
    by simp
qed









text \<open>
  C1. The claim is that every declaration's extra-fields policy is, after
  \<^verbatim>\<open>generate_schema\<close>, what it was before. In the code \<^verbatim>\<open>all_model_extras\<close> is read after
  the policies have been overridden, so the \<^verbatim>\<open>finally\<close> block writes the overridden values
  back: \<^verbatim>\<open>User\<close>, whose policy was unset, is left with \<^verbatim>\<open>forbid\<close>, whatever the reflection
  does (return or raise).
\<close>

theorem extra_policy_not_restored:
  "get_extra ex_classes 1 = JNull
     \<and> (\<forall>reflect dumps.
           get_extra (snd (generate_schema reflect dumps [1] [] ex_classes)) 1 = JStr ''forbid'')"
proof (intro conjI allI)
  show unset: "get_extra ex_classes 1 = JNull"
    by (simp add: get_extra_def dict_get_def ex_classes_def)
  fix reflect :: reflection and dumps :: "dict \<Rightarrow> string"
  have "get_extra (snd (generate_schema reflect dumps [1] [] ex_classes)) 1
          = get_extra (override_extras ex_classes [1]) 1"
    by (simp add: generate_schema_store)
  also have "\<dots> = JStr ''forbid''"
    using unset by (simp add: get_extra_override_extras)
  finally show "get_extra (snd (generate_schema reflect dumps [1] [] ex_classes)) 1 = JStr ''forbid''" .
qed


section \<open>The claims about post-processing\<close>

text \<open>
  C5, as the code has it. When the file has a header line of the master model and a later
  line that is a closing brace, \<^verbatim>\<open>clean_output_file\<close> returns normally and rewrites the
  file to the banner lines, the lines before \<open>start\<close> and the lines after \<open>end\<close>, where
  \<open>end\<close> is the first closing-brace line after the first header line and \<open>start\<close> is the
  last header line before \<open>end\<close> (the first header line when there is only one).
\<close>

theorem clean_output_file_removes_master_block:
  assumes "files0 output_filename = Some content"
    and "ls = readlines content"
    and "h < length ls" and "is_master_header (ls ! h)"
    and "\<forall>k<h. \<not> is_master_header (ls ! k)"
    and "e < length ls" and "h < e" and "is_closing_brace (ls ! e)"
    and "\<forall>k. h < k \<and> k < e \<longrightarrow> \<not> is_closing_brace (ls ! k)"
    and "s < e" and "is_master_header (ls ! s)"
    and "\<forall>k. s < k \<and> k < e \<longrightarrow> \<not> is_master_header (ls ! k)"
  shows "clean_output_file output_filename files0
           = (Inr (), files0(output_filename \<mapsto>
                concat (banner_comment_lines @ take s ls @ drop (Suc e) ls)))"
proof -
  have "find_markers 0 ls None = (Some s, Some e)"
    using assms(3-12) by (rule find_markers_found)
  with assms(1,2) show ?thesis by (simp add: clean_output_file_found)
qed

theorem clean_output_file_removes_master_block_witness:
  "clean_output_file ''api.ts'' (ex_files ex_output_text)
     = (Inr (), (ex_files ex_output_text)(''api.ts'' \<mapsto>
          concat (banner_comment_lines
                  @ take 3 [''export interface User {\<newline>'', ''  id: number;\<newline>'', ''}\<newline>'',
                            ''export interface _Master_ {\<newline>'', ''  User: User;\<newline>'', ''}\<newline>'']
                  @ drop (Suc 5) [''export interface User {\<newline>'', ''  id: number;\<newline>'', ''}\<newline>'',
                            ''export interface _Master_ {\<newline>'', ''  User: User;\<newline>'', ''}\<newline>''])))"
proof (rule clean_output_file_removes_master_block [where content = ex_output_text and h = 3])
  let ?ls = "[''export interface User {\<newline>'', ''  id: number;\<newline>'', ''}\<newline>'',
              ''export interface _Master_ {\<newline>'', ''  User: User;\<newline>'', ''}\<newline>'']"
  show "ex_files ex_output_text ''api.ts'' = Some ex_output_text" by (simp add: ex_files_def)
  show "?ls = readlines ex_output_text" by (rule ex_readlines_output [symmetric])
  show "3 < length ?ls" "5 < length ?ls" "(3::nat) < 5" by simp_all
  show "is_master_header (?ls ! 3)" by (simp add: is_master_header_def rstrip_crlf_def)
  show "is_closing_brace (?ls ! 5)" by (simp add: is_closing_brace_def rstrip_crlf_def)
  show "\<forall>k<3. \<not> is_master_header (?ls ! k)"
    by (simp add: numeral_3_eq_3 All_less_Suc is_master_header_def rstrip_crlf_def)
  have "k = 4" if "3 < k \<and> k < 5" for k :: nat using that by simp
  then show "\<forall>k. 3 < k \<and> k < 5 \<longrightarrow> \<not> is_closing_brace (?ls ! k)"
    by (auto simp: is_closing_brace_def rstrip_crlf_def)
  from \<open>\<And>k. 3 < k \<and> k < 5 \<Longrightarrow> k = 4\<close>
  show "\<forall>k. 3 < k \<and> k < 5 \<longrightarrow> \<not> is_master_header (?ls ! k)"
    by (auto simp: is_master_header_def rstrip_crlf_def)
qed (simp_all add: is_master_header_def rstrip_crlf_def)

theorem first_header_not_start_counterexample:
  "readlines ex_double_header_text
     = [''export interface _Master_ {\<newline>'', ''export interface _Master_ {\<newline>'', ''}\<newline>'']
   \<and> is_master_header (readlines ex_double_header_text ! 0)
   \<and> is_closing_brace (readlines ex_double_header_text ! 2)
   \<and> fst (clean_output_file ''api.ts'' (ex_files ex_double_header_text)) = Inr ()
   \<and> snd (clean_output_file ''api.ts'' (ex_files ex_double_header_text)) ''api.ts''
       = Some (concat (banner_comment_lines @ [''export interface _Master_ {\<newline>'']))
   \<and> concat (banner_comment_lines @ [''export interface _Master_ {\<newline>''])
       \<noteq> concat (banner_comment_lines @ take 0 (readlines ex_double_header_text)
                   @ drop (Suc 2) (readlines ex_double_header_text))"
  by (simp add: ex_double_header_text_def ex_files_def clean_output_file_def is_master_header_def
        is_closing_brace_def rstrip_crlf_def Let_def)

text \<open>
  C2. The claim is that a file without one of the two markers is left as it was and that
  the call returns normally. In the code \<^verbatim>\<open>new_lines\<close> is assigned only when both markers
  were found, and the file is opened for writing before the variable is read: the file ends
  up empty and the call raises UnboundLocalError.
\<close>

theorem clean_output_file_without_master_truncates:
  "fst (clean_output_file ''api.ts'' (ex_files ex_no_master_text)) = Inl (UnboundLocalError ''new_lines'')
   \<and> snd (clean_output_file ''api.ts'' (ex_files ex_no_master_text)) ''api.ts'' = Some []"
  by (simp add: ex_no_master_text_def ex_files_def clean_output_file_def is_master_header_def
        is_closing_brace_def rstrip_crlf_def Let_def)

section \<open>The claim about the orchestrator\<close>

text \<open>
  C9. The claim has two halves. On a non-zero exit status the code does what it says
  (\<open>convert_schema_nonzero\<close>). On exit status 0 the claim says no error is raised; the
  code runs \<^verbatim>\<open>clean_output_file\<close>, and when the converter's output has no master block
  spread over several lines, as for a module without declarations, that call raises
  UnboundLocalError after emptying the output file.
\<close>

theorem zero_exit_status_can_raise:
  "\<forall>dumps.
     fst (generate_typescript_defs (ex_externals dumps) ''models'' ''api.ts'' [] ''json2ts'' False ex_world)
       = Inl (UnboundLocalError ''new_lines'')
     \<and> files (snd (generate_typescript_defs (ex_externals dumps) ''models'' ''api.ts'' [] ''json2ts'' False
                     ex_world)) ''api.ts'' = Some []"
proof
  fix dumps
  let ?ext = "ex_externals dumps"
  let ?run = "generate_typescript_defs ?ext ''models'' ''api.ts'' [] ''json2ts'' False ex_world"
  have sel: "ext_which ?ext ''json2ts''" "ext_load_models ?ext ''models'' = (\<lambda>st. (Inr [], st))"
    "ext_load_typed_dicts ?ext ''models'' = (\<lambda>st. (Inr [], st))" "ext_reflect ?ext = ex_reflect"
    "ext_dumps ?ext = dumps"
    by (simp_all add: ex_externals_def)
  have g: "?run = convert_schema ?ext ''api.ts'' ''json2ts'' (dumps (ex_master [] []))
                    (ex_world\<lparr>classes := classes ex_world\<rparr>)"
    by (simp add: generate_typescript_defs_def exclude_by_name_def sel ex_generate_schema_empty)
  have "fst ?run = Inl (UnboundLocalError ''new_lines'') \<and> files (snd ?run) ''api.ts'' = Some []"
    unfolding g by (rule ex_convert_empty_master)
  then show "fst ?run = Inl (UnboundLocalError ''new_lines'') \<and> files (snd ?run) ''api.ts'' = Some []" .
qed


end
